theory Spec2Isabelle
  imports Main
begin

section \<open>JavaScript values\<close>

text \<open>
  The values the plugin handles: the primitives of the language and plain objects, an
  object being its own data properties in insertion order. Numbers are the integers and
  \<open>NaN\<close>; functions, symbols and the prototype chain are left out (no property read
  of the plugin, \<open>archived\<close>, \<open>status\<close> or \<open>data\<close>, is found on a prototype).
\<close>

datatype jsval =
    JUndefined
  | JNull
  | JBool bool
  | JNum int
  | JNaN
  | JStr string
  | JObj "(string \<times> jsval) list"

text \<open>What is thrown: a \<open>TypeError\<close> of the language itself, or the error object a
  remote call rejects with (its own properties).\<close>

datatype thrown =
    TypeError
  | Rejected "(string \<times> jsval) list"

definition tbind :: "thrown + 'a \<Rightarrow> ('a \<Rightarrow> thrown + 'b) \<Rightarrow> thrown + 'b" where
  "tbind m f = (case m of Inl e \<Rightarrow> Inl e | Inr v \<Rightarrow> f v)"

text \<open>\<open>typeof v\<close>.\<close>

fun typeof :: "jsval \<Rightarrow> string" where
  "typeof JUndefined = ''undefined''"
| "typeof JNull = ''object''"
| "typeof (JBool b) = ''boolean''"
| "typeof (JNum n) = ''number''"
| "typeof JNaN = ''number''"
| "typeof (JStr s) = ''string''"
| "typeof (JObj ps) = ''object''"

text \<open>Conversion to boolean, as \<open>!v\<close>, \<open>v && w\<close>, \<open>v ? a : b\<close> and \<open>if (v)\<close> do it.\<close>

fun truthy :: "jsval \<Rightarrow> bool" where
  "truthy JUndefined = False"
| "truthy JNull = False"
| "truthy (JBool b) = b"
| "truthy (JNum n) = (n \<noteq> 0)"
| "truthy JNaN = False"
| "truthy (JStr s) = (s \<noteq> [])"
| "truthy (JObj ps) = True"

text \<open>\<open>!v\<close> and \<open>v && w\<close> (both operands of the plugin's conjunctions are free of effects).\<close>

definition js_not :: "jsval \<Rightarrow> jsval" where
  "js_not v = JBool (\<not> truthy v)"

definition js_and :: "jsval \<Rightarrow> jsval \<Rightarrow> jsval" where
  "js_and v w = (if truthy v then w else v)"

text \<open>\<open>v === w\<close>: equal primitives of one type; \<open>NaN\<close> equals nothing, and an object
  equals only itself, so never a literal or another value of the model.\<close>

fun strict_eq :: "jsval \<Rightarrow> jsval \<Rightarrow> bool" where
  "strict_eq JNaN w = False"
| "strict_eq (JObj ps) w = False"
| "strict_eq v w = (v = w)"

text \<open>\<open>v?.k\<close>: \<open>undefined\<close> on \<open>null\<close> and \<open>undefined\<close>, otherwise the property, which is
  \<open>undefined\<close> when absent. A string has its \<open>length\<close>; the other primitives have no
  data property.\<close>

fun opt_get :: "jsval \<Rightarrow> string \<Rightarrow> jsval" where
  "opt_get (JObj ps) k = (case map_of ps k of None \<Rightarrow> JUndefined | Some v \<Rightarrow> v)"
| "opt_get (JStr s) k = (if k = ''length'' then JNum (int (length s)) else JUndefined)"
| "opt_get v k = JUndefined"

text \<open>\<open>v.k\<close>: a \<open>TypeError\<close> on \<open>null\<close> and \<open>undefined\<close>.\<close>

definition get_prop :: "jsval \<Rightarrow> string \<Rightarrow> thrown + jsval" where
  "get_prop v k = (if v = JUndefined \<or> v = JNull then Inl TypeError else Inr (opt_get v k))"

text \<open>\<open>error.status\<close> in a \<open>catch\<close>: a \<open>TypeError\<close> has no such property.\<close>

fun thrown_prop :: "thrown \<Rightarrow> string \<Rightarrow> jsval" where
  "thrown_prop TypeError k = JUndefined"
| "thrown_prop (Rejected ps) k = opt_get (JObj ps) k"

section \<open>The collaborators\<close>

text \<open>
  The resource-access capability is injected: \<open>repos.get\<close> and \<open>repos.update\<close> are any
  two operations on a remote state \<open>'w\<close> that resolve with a response (\<open>Inr\<close>) or reject
  with an error object (\<open>Inl\<close>), and \<open>repos.update.endpoint\<close> is any function from
  parameters to a descriptor.
\<close>

record 'w github =
  repos_get :: "jsval \<Rightarrow> 'w \<Rightarrow> ((string \<times> jsval) list + jsval) \<times> 'w"
  repos_update :: "jsval \<Rightarrow> 'w \<Rightarrow> ((string \<times> jsval) list + jsval) \<times> 'w"
  repos_update_endpoint :: "jsval \<Rightarrow> jsval"

text \<open>What the plugin does to the outside, in order: the remote calls with their
  parameters, and the calls of the logger with their arguments.\<close>

datatype event =
    ReposGet jsval
  | ReposUpdate jsval
  | LogDebug "jsval list"
  | LogWarn "jsval list"

record 'w world =
  remote :: 'w
  trace :: "event list"

definition emit :: "event \<Rightarrow> 'w world \<Rightarrow> 'w world" where
  "emit e w = w\<lparr>trace := trace w @ [e]\<rparr>"

text \<open>\<open>this.repo\<close>, the identity of the resource; \<open>reponame\<close> is its property
  \<open>repo\<close>.\<close>

record repo_id =
  owner :: string
  reponame :: string

text \<open>Modelled from the spec: the class \<open>NopCommand\<close> of \<open>lib/nopcommand\<close> is not among
  the sources; the preview artifact keeps the five constructor arguments under the names
  the specification gives them.\<close>

record NopCommand =
  source :: string
  resource :: repo_id
  endpoint :: jsval
  change :: jsval
  level :: string

text \<open>What \<open>updateRepoArchiveStatus\<close> returns: a \<open>NopCommand\<close> or a plain value.\<close>

datatype ret =
    Cmd NopCommand
  | Val jsval

section \<open>The plugin\<close>

text \<open>The fields the constructor sets, and \<open>repository\<close>, which \<open>getState\<close> and \<open>sync\<close>
  assign. \<open>nop\<close> is only ever tested, so it is kept as its truth value. The logger is
  the trace of the world.\<close>

record 'w archive =
  github :: "'w github"
  repo :: repo_id
  settings :: jsval
  nop :: bool
  repository :: jsval

definition new_Archive :: "bool \<Rightarrow> 'w github \<Rightarrow> repo_id \<Rightarrow> jsval \<Rightarrow> 'w archive" where
  "new_Archive n g r s =
     \<lparr>github = g, repo = r, settings = s, nop = n, repository = JUndefined\<rparr>"

text \<open>\<open>const { data } = await call\<close>: the rejection is thrown, the response is destructured.\<close>

definition await_data :: "((string \<times> jsval) list + jsval) \<Rightarrow> thrown + jsval" where
  "await_data res =
     (case res of
        Inl rej \<Rightarrow> Inl (Rejected rej)
      | Inr resp \<Rightarrow> get_prop resp ''data'')"

definition get_params :: "'w archive \<Rightarrow> jsval" where
  "get_params this =
     JObj [(''owner'', JStr (owner (repo this))), (''repo'', JStr (reponame (repo this)))]"

definition getRepo :: "'w archive \<Rightarrow> 'w world \<Rightarrow> (thrown + jsval) \<times> 'w world" where
  "getRepo this w =
     (let (res, r') = repos_get (github this) (get_params this) (remote w);
          w' = emit (ReposGet (get_params this)) (w\<lparr>remote := r'\<rparr>)
      in case await_data res of
           Inr data \<Rightarrow> (Inr data, w')
         | Inl error \<Rightarrow>
             if strict_eq (thrown_prop error ''status'') (JNum 404) then (Inr JNull, w')
             else (Inl error, w'))"

definition getDesiredArchiveState :: "'w archive \<Rightarrow> thrown + jsval" where
  "getDesiredArchiveState this =
     (if typeof (opt_get (settings this) ''archived'') = ''undefined'' then Inr JNull
      else tbind (get_prop (settings this) ''archived'') (\<lambda>a.
        if typeof a = ''boolean'' then get_prop (settings this) ''archived''
        else tbind (get_prop (settings this) ''archived'') (\<lambda>a'.
          Inr (JBool (strict_eq a' (JStr ''true''))))))"

text \<open>A parameter with a default value: the default is taken when the argument is
  \<open>undefined\<close> (also when it is left out).\<close>

definition default_param :: "jsval \<Rightarrow> jsval \<Rightarrow> jsval" where
  "default_param arg dflt = (if arg = JUndefined then dflt else arg)"

definition shouldArchive :: "'w archive \<Rightarrow> jsval \<Rightarrow> thrown + jsval" where
  "shouldArchive this arg =
     (let repository = default_param arg (repository this)
      in tbind (getDesiredArchiveState this) (\<lambda>desiredState.
           if strict_eq desiredState JNull then Inr (JBool False)
           else Inr (js_and (js_not (opt_get repository ''archived'')) desiredState)))"

definition shouldUnarchive :: "'w archive \<Rightarrow> jsval \<Rightarrow> thrown + jsval" where
  "shouldUnarchive this arg =
     (let repository = default_param arg (repository this)
      in tbind (getDesiredArchiveState this) (\<lambda>desiredState.
           if strict_eq desiredState JNull then Inr (JBool False)
           else Inr (js_and (opt_get repository ''archived'') (js_not desiredState))))"

definition isArchived :: "'w archive \<Rightarrow> jsval" where
  "isArchived this = opt_get (repository this) ''archived''"

text \<open>The parameters of the remote update (the object literal of lines 41 to 45).\<close>

definition update_params :: "'w archive \<Rightarrow> jsval \<Rightarrow> jsval" where
  "update_params this archived =
     JObj [(''owner'', JStr (owner (repo this))), (''repo'', JStr (reponame (repo this))),
           (''archived'', archived)]"

text \<open>The pieces of \<open>updateRepoArchiveStatus\<close>: the action of line 28, the change of
  line 31, and the message of line 47, \<open>Repo ${owner}/${repo} ${action}d\<close>.\<close>

definition action_name :: "jsval \<Rightarrow> string" where
  "action_name archived = (if truthy archived then ''archive'' else ''unarchive'')"

definition change_record :: "string \<Rightarrow> jsval" where
  "change_record action =
     JObj [(''msg'', JStr ''Change found''), (''additions'', JObj []),
           (''modifications'', JObj [(''archived'', JStr action)]),
           (''deletions'', JObj [])]"

definition updated_message :: "'w archive \<Rightarrow> string \<Rightarrow> string" where
  "updated_message this action =
     ''Repo '' @ owner (repo this) @ ''/'' @ reponame (repo this) @ '' '' @ action @ ''d''"

definition updateRepoArchiveStatus ::
    "'w archive \<Rightarrow> jsval \<Rightarrow> 'w world \<Rightarrow> (thrown + ret) \<times> 'w world" where
  "updateRepoArchiveStatus this archived w =
     (let action = action_name archived
      in if nop this then
           (let change = change_record action
            in (Inr (Cmd \<lparr>source = ''Archive'', resource = repo this,
                           endpoint = repos_update_endpoint (github this) (settings this),
                           change = change, level = ''INFO''\<rparr>), w))
         else
           (let (res, r') = repos_update (github this) (update_params this archived) (remote w);
                w' = emit (ReposUpdate (update_params this archived)) (w\<lparr>remote := r'\<rparr>)
            in case await_data res of
                 Inl e \<Rightarrow> (Inl e, w')
               | Inr data \<Rightarrow>
                   (Inr (Val JUndefined),
                    emit (LogDebug [JObj [(''result'', data)],
                                    JStr (updated_message this action)]) w')))"

text \<open>The messages of \<open>sync\<close>: \<open>Repo ${owner}/${repo} not found, skipping archive sync\<close>
  and \<open>No archive changes needed for ${owner}/${repo}\<close>.\<close>

definition not_found_message :: "'w archive \<Rightarrow> string" where
  "not_found_message this =
     ''Repo '' @ owner (repo this) @ ''/'' @ reponame (repo this) @
     '' not found, skipping archive sync''"

definition no_changes_message :: "'w archive \<Rightarrow> string" where
  "no_changes_message this =
     ''No archive changes needed for '' @ owner (repo this) @ ''/'' @ reponame (repo this)"

text \<open>\<open>getState\<close> and \<open>sync\<close> return their result, the plugin object (whose
  \<open>repository\<close> they assign once the fetch has returned) and the world.\<close>

definition getState ::
    "'w archive \<Rightarrow> 'w world \<Rightarrow> (thrown + jsval) \<times> 'w archive \<times> 'w world" where
  "getState this w =
     (case getRepo this w of
        (Inl e, w') \<Rightarrow> (Inl e, this, w')
      | (Inr data, w') \<Rightarrow>
          (let this' = this\<lparr>repository := data\<rparr>
           in (tbind (shouldArchive this' JUndefined) (\<lambda>sa.
               tbind (shouldUnarchive this' JUndefined) (\<lambda>su.
                 Inr (JObj [(''isArchived'', isArchived this'), (''shouldArchive'', sa),
                            (''shouldUnarchive'', su)]))),
               this', w')))"

definition sync ::
    "'w archive \<Rightarrow> 'w world \<Rightarrow> (thrown + ret list) \<times> 'w archive \<times> 'w world" where
  "sync this w =
     (case getRepo this w of
        (Inl e, w1) \<Rightarrow> (Inl e, this, w1)
      | (Inr data, w1) \<Rightarrow>
          (let this' = this\<lparr>repository := data\<rparr>
           in if \<not> truthy (repository this') then
                (Inr [], this',
                 emit (LogWarn [JStr (not_found_message this')]) w1)
              else
                (case shouldArchive this' JUndefined of
                   Inl e \<Rightarrow> (Inl e, this', w1)
                 | Inr shouldArchive' \<Rightarrow>
                     (case shouldUnarchive this' JUndefined of
                        Inl e \<Rightarrow> (Inl e, this', w1)
                      | Inr shouldUnarchive' \<Rightarrow>
                          if \<not> truthy shouldArchive' \<and> \<not> truthy shouldUnarchive' then
                            (Inr [], this',
                             emit (LogDebug [JStr (no_changes_message this')]) w1)
                          else
                            (let archived = shouldArchive'
                             in case updateRepoArchiveStatus this' archived w1 of
                                  (Inl e, w2) \<Rightarrow> (Inl e, this', w2)
                                | (Inr r, w2) \<Rightarrow> (Inr [r], this', w2))))))"

section \<open>The decision\<close>

text \<open>
  The action \<open>sync\<close> selects once the repository is fetched (lines 95 to 103, with line
  28): none when neither \<open>shouldArchive\<close> nor \<open>shouldUnarchive\<close> is truthy, otherwise
  the one \<open>archived = shouldArchive\<close> stands for.
\<close>

datatype action = NoAction | Archive | Unarchive

definition decide :: "'w archive \<Rightarrow> thrown + action" where
  "decide this =
     tbind (shouldArchive this JUndefined) (\<lambda>sa.
     tbind (shouldUnarchive this JUndefined) (\<lambda>su.
       Inr (if \<not> truthy sa \<and> \<not> truthy su then NoAction
            else if truthy sa then Archive else Unarchive)))"

section \<open>Test doubles\<close>

text \<open>
  An in-memory remote: its state is the data of the repository, \<open>null\<close> when there is
  none. \<open>get\<close> rejects with status 404 when there is none; \<open>update\<close> stores the
  \<open>archived\<close> parameter; the descriptor of \<open>update\<close> holds its parameters.
\<close>

definition memory_github :: "jsval github" where
  "memory_github =
     \<lparr>repos_get = (\<lambda>p r. if r = JNull then (Inl [(''status'', JNum 404)], r)
                          else (Inr (JObj [(''data'', r)]), r)),
      repos_update = (\<lambda>p r. (Inr (JObj [(''data'', JObj [(''archived'', opt_get p ''archived'')])]),
                             JObj [(''archived'', opt_get p ''archived'')])),
      repos_update_endpoint = (\<lambda>p. JObj [(''method'', JStr ''PATCH''),
                                          (''url'', JStr ''/repos/{owner}/{repo}''),
                                          (''params'', p)])\<rparr>"

text \<open>A remote that is down: every call rejects with the given error object.\<close>

definition failing_github :: "(string \<times> jsval) list \<Rightarrow> unit github" where
  "failing_github err =
     \<lparr>repos_get = (\<lambda>p r. (Inl err, r)),
      repos_update = (\<lambda>p r. (Inl err, r)),
      repos_update_endpoint = (\<lambda>p. JObj [])\<rparr>"

definition test_repo :: repo_id where
  "test_repo = \<lparr>owner = ''test-owner'', reponame = ''test-repo''\<rparr>"

definition world0 :: "'w \<Rightarrow> 'w world" where
  "world0 r = \<lparr>remote = r, trace = []\<rparr>"

text \<open>An object whose only property is \<open>archived\<close>, and a plugin on the in-memory
  remote, in the given mode, with the given settings and last-fetched repository.\<close>

definition archived_obj :: "jsval \<Rightarrow> jsval" where
  "archived_obj v = JObj [(''archived'', v)]"

definition plugin :: "bool \<Rightarrow> jsval \<Rightarrow> jsval \<Rightarrow> jsval archive" where
  "plugin n s r = (new_Archive n memory_github test_repo s)\<lparr>repository := r\<rparr>"

section \<open>Facts: the state normalizer\<close>

lemma opt_get_nullish: "v = JUndefined \<or> v = JNull \<Longrightarrow> opt_get v k = JUndefined"
  by auto

lemma getDesiredArchiveState_eq:
  "getDesiredArchiveState this =
     Inr (case opt_get (settings this) ''archived'' of
            JUndefined \<Rightarrow> JNull
          | JBool b \<Rightarrow> JBool b
          | v \<Rightarrow> JBool (v = JStr ''true''))"
proof (cases "settings this = JUndefined \<or> settings this = JNull")
  case True
  then have "opt_get (settings this) ''archived'' = JUndefined"
    by (rule opt_get_nullish)
  then show ?thesis
    by (simp add: getDesiredArchiveState_def)
next
  case False
  then have g: "get_prop (settings this) ''archived'' = Inr (opt_get (settings this) ''archived'')"
    by (simp add: get_prop_def)
  show ?thesis
    by (cases "opt_get (settings this) ''archived''")
      (simp_all add: getDesiredArchiveState_def g tbind_def)
qed

lemma desired_cases:
  "getDesiredArchiveState this = Inr JNull \<or> (\<exists>b. getDesiredArchiveState this = Inr (JBool b))"
  by (cases "opt_get (settings this) ''archived''") (auto simp add: getDesiredArchiveState_eq)

lemma desired_settings:
  "settings this1 = settings this \<Longrightarrow> getDesiredArchiveState this1 = getDesiredArchiveState this"
  by (simp add: getDesiredArchiveState_eq)

lemma desired_repository [simp]:
  "getDesiredArchiveState (this\<lparr>repository := d\<rparr>) = getDesiredArchiveState this"
  by (simp add: getDesiredArchiveState_eq)

lemma desired_nop [simp]:
  "getDesiredArchiveState (this\<lparr>nop := n\<rparr>) = getDesiredArchiveState this"
  by (simp add: getDesiredArchiveState_eq)

section \<open>Facts: the decision engine\<close>

lemma default_param_undefined [simp]: "default_param JUndefined d = d"
  by (simp add: default_param_def)

lemma shouldArchive_arg:
  "shouldArchive this arg =
     Inr (JBool (getDesiredArchiveState this = Inr (JBool True) \<and>
                 \<not> truthy (opt_get (default_param arg (repository this)) ''archived'')))"
  by (cases "opt_get (settings this) ''archived''")
     (auto simp add: shouldArchive_def getDesiredArchiveState_eq tbind_def js_and_def js_not_def Let_def)

lemma shouldUnarchive_arg:
  "shouldUnarchive this arg =
     Inr (if getDesiredArchiveState this = Inr JNull then JBool False
          else if truthy (opt_get (default_param arg (repository this)) ''archived'')
               then JBool (getDesiredArchiveState this = Inr (JBool False))
               else opt_get (default_param arg (repository this)) ''archived'')"
  by (cases "opt_get (settings this) ''archived''")
     (auto simp add: shouldUnarchive_def getDesiredArchiveState_eq tbind_def js_and_def js_not_def Let_def)

lemma should_exclusive:
  assumes sa: "shouldArchive this arg = Inr sa" and su: "shouldUnarchive this arg = Inr su"
  shows "\<not> (truthy sa \<and> truthy su)"
proof (cases "truthy (opt_get (default_param arg (repository this)) ''archived'')")
  case True
  with sa have "sa = JBool False"
    by (simp add: shouldArchive_arg)
  then show ?thesis by simp
next
  case False
  then have "shouldUnarchive this arg =
      Inr (if getDesiredArchiveState this = Inr JNull then JBool False
           else opt_get (default_param arg (repository this)) ''archived'')"
    by (simp add: shouldUnarchive_arg)
  with su have "su = (if getDesiredArchiveState this = Inr JNull then JBool False
                      else opt_get (default_param arg (repository this)) ''archived'')"
    by simp
  then have "su = JBool False \<or> su = opt_get (default_param arg (repository this)) ''archived''"
    by (cases "getDesiredArchiveState this = Inr JNull") simp_all
  with False show ?thesis by auto
qed

lemma decide_eq:
  "decide this =
     Inr (if getDesiredArchiveState this = Inr (JBool True) \<and>
             \<not> truthy (opt_get (repository this) ''archived'') then Archive
          else if getDesiredArchiveState this = Inr (JBool False) \<and>
             truthy (opt_get (repository this) ''archived'') then Unarchive
          else NoAction)"
  using desired_cases [of this]
  by (auto simp add: decide_def shouldArchive_arg shouldUnarchive_arg tbind_def)

lemma decide_Archive_iff:
  "decide this = Inr Archive \<longleftrightarrow>
     getDesiredArchiveState this = Inr (JBool True) \<and>
     \<not> truthy (opt_get (repository this) ''archived'')"
  by (simp add: decide_eq)

lemma decide_Unarchive_iff:
  "decide this = Inr Unarchive \<longleftrightarrow>
     getDesiredArchiveState this = Inr (JBool False) \<and>
     truthy (opt_get (repository this) ''archived'')"
  by (auto simp add: decide_eq)

lemma decide_NoAction_iff:
  "decide this = Inr NoAction \<longleftrightarrow>
     (\<exists>sa su. shouldArchive this JUndefined = Inr sa \<and> shouldUnarchive this JUndefined = Inr su \<and>
              \<not> truthy sa \<and> \<not> truthy su)"
  by (auto simp add: decide_def tbind_def split: sum.splits if_splits)

lemma decide_NoAction_compliant:
  "decide this = Inr NoAction \<longleftrightarrow>
     getDesiredArchiveState this = Inr JNull \<or>
     getDesiredArchiveState this = Inr (JBool (truthy (opt_get (repository this) ''archived'')))"
  using desired_cases [of this] by (auto simp add: decide_eq)

lemma decide_total: "\<exists>act. decide this = Inr act"
  by (simp add: decide_eq)

lemma decide_cong:
  "settings a = settings b \<Longrightarrow> repository a = repository b \<Longrightarrow> decide a = decide b"
  by (simp add: decide_eq getDesiredArchiveState_eq)

lemma decide_nop [simp]: "decide (this\<lparr>nop := n\<rparr>) = decide this"
  by (simp add: decide_eq)

lemma truthy_opt_get: "truthy (opt_get d ''archived'') \<Longrightarrow> truthy d"
  by (cases d) auto

lemma opt_get_defined: "opt_get d ''archived'' \<noteq> JUndefined \<Longrightarrow> truthy d"
  by (cases d) auto

section \<open>Facts: the state fetcher\<close>

lemma getRepo_nop [simp]: "getRepo (this\<lparr>nop := n\<rparr>) w = getRepo this w"
  by (simp add: getRepo_def get_params_def)

lemma getRepo_rejected:
  assumes "repos_get (github this) (get_params this) (remote w) = (Inl rej, r')"
  shows "getRepo this w =
           (if opt_get (JObj rej) ''status'' = JNum 404 then Inr JNull else Inl (Rejected rej),
            \<lparr>remote = r', trace = trace w @ [ReposGet (get_params this)]\<rparr>)"
  using assms
  by (cases "opt_get (JObj rej) ''status''")
     (simp_all add: getRepo_def await_data_def emit_def)

lemma getRepo_world:
  "snd (getRepo this w) =
     \<lparr>remote = snd (repos_get (github this) (get_params this) (remote w)),
      trace = trace w @ [ReposGet (get_params this)]\<rparr>"
  by (simp add: getRepo_def emit_def Let_def split: prod.splits sum.splits)

lemma getRepo_trace:
  "getRepo this w = (res, w1) \<Longrightarrow> trace w1 = trace w @ [ReposGet (get_params this)]"
  using getRepo_world [of this w] by simp

section \<open>Facts: the action executor\<close>

lemma update_params_repository [simp]:
  "update_params (this\<lparr>repository := d\<rparr>) v = update_params this v"
  by (simp add: update_params_def)

lemma update_params_nop [simp]:
  "update_params (this\<lparr>nop := n\<rparr>) v = update_params this v"
  by (simp add: update_params_def)

lemma updated_message_repository [simp]:
  "updated_message (this\<lparr>repository := d\<rparr>) a = updated_message this a"
  by (simp add: updated_message_def)

lemma action_name_bool: "action_name (JBool b) = (if b then ''archive'' else ''unarchive'')"
  by (simp add: action_name_def)

lemma modifications_archived:
  "opt_get (opt_get (change_record a) ''modifications'') ''archived'' = JStr a"
  by (simp add: change_record_def)

lemma update_preview:
  "nop this \<Longrightarrow>
   updateRepoArchiveStatus this v w =
     (Inr (Cmd \<lparr>source = ''Archive'', resource = repo this,
                endpoint = repos_update_endpoint (github this) (settings this),
                change = change_record (action_name v), level = ''INFO''\<rparr>), w)"
  by (simp add: updateRepoArchiveStatus_def)

lemma update_apply:
  assumes "\<not> nop this"
    and "repos_update (github this) (update_params this v) (remote w) = (res, r')"
  shows "updateRepoArchiveStatus this v w =
     (case await_data res of
        Inl e \<Rightarrow> (Inl e, \<lparr>remote = r', trace = trace w @ [ReposUpdate (update_params this v)]\<rparr>)
      | Inr data \<Rightarrow>
          (Inr (Val JUndefined),
           \<lparr>remote = r',
            trace = trace w @
              [ReposUpdate (update_params this v),
               LogDebug [JObj [(''result'', data)],
                         JStr (updated_message this (action_name v))]]\<rparr>))"
  using assms
  by (simp add: updateRepoArchiveStatus_def emit_def split: sum.splits)

lemma update_apply_trace:
  assumes "\<not> nop this"
  shows "\<exists>tl. trace (snd (updateRepoArchiveStatus this v w)) =
               trace w @ ReposUpdate (update_params this v) # tl"
proof -
  obtain res r' where
    "repos_update (github this) (update_params this v) (remote w) = (res, r')"
    by (cases "repos_update (github this) (update_params this v) (remote w)")
  from update_apply [OF assms this] show ?thesis
    by (cases "await_data res") simp_all
qed

section \<open>Facts: the reconciler\<close>

lemma sync_absent:
  "getRepo this w = (Inr d, w1) \<Longrightarrow> \<not> truthy d \<Longrightarrow>
   sync this w =
     (Inr [], this\<lparr>repository := d\<rparr>,
      w1\<lparr>trace := trace w1 @ [LogWarn [JStr (not_found_message this)]]\<rparr>)"
  by (simp add: sync_def emit_def not_found_message_def)

lemma sync_compliant:
  "getRepo this w = (Inr d, w1) \<Longrightarrow> truthy d \<Longrightarrow>
   decide (this\<lparr>repository := d\<rparr>) = Inr NoAction \<Longrightarrow>
   sync this w =
     (Inr [], this\<lparr>repository := d\<rparr>,
      w1\<lparr>trace := trace w1 @ [LogDebug [JStr (no_changes_message this)]]\<rparr>)"
  by (auto simp add: sync_def emit_def decide_NoAction_iff no_changes_message_def)

lemma sync_act:
  "getRepo this w = (Inr d, w1) \<Longrightarrow> truthy d \<Longrightarrow>
   decide (this\<lparr>repository := d\<rparr>) = Inr act \<Longrightarrow> act \<noteq> NoAction \<Longrightarrow>
   sync this w =
     (case updateRepoArchiveStatus (this\<lparr>repository := d\<rparr>) (JBool (act = Archive)) w1 of
        (Inl e, w2) \<Rightarrow> (Inl e, this\<lparr>repository := d\<rparr>, w2)
      | (Inr r, w2) \<Rightarrow> (Inr [r], this\<lparr>repository := d\<rparr>, w2))"
  by (auto simp add: sync_def decide_def shouldArchive_arg shouldUnarchive_arg tbind_def Let_def
      split: if_splits)

lemma sync_decide:
  assumes fetch: "getRepo this w = (Inr d, w1)" and found: "truthy d"
  shows "sync this w =
     (case decide (this\<lparr>repository := d\<rparr>) of
        Inl e \<Rightarrow> (Inl e, this\<lparr>repository := d\<rparr>, w1)
      | Inr NoAction \<Rightarrow>
          (Inr [], this\<lparr>repository := d\<rparr>, emit (LogDebug [JStr (no_changes_message this)]) w1)
      | Inr act \<Rightarrow>
          (case updateRepoArchiveStatus (this\<lparr>repository := d\<rparr>) (JBool (act = Archive)) w1 of
             (Inl e, w2) \<Rightarrow> (Inl e, this\<lparr>repository := d\<rparr>, w2)
           | (Inr r, w2) \<Rightarrow> (Inr [r], this\<lparr>repository := d\<rparr>, w2)))"
proof -
  obtain act where a: "decide (this\<lparr>repository := d\<rparr>) = Inr act"
    using decide_total by blast
  show ?thesis
  proof (cases "act = NoAction")
    case True
    with a sync_compliant [OF fetch found] show ?thesis
      by (simp add: emit_def)
  next
    case False
    with a sync_act [OF fetch found a] show ?thesis
      by (cases act) simp_all
  qed
qed

lemma sync_preview:
  assumes "nop this" and "getRepo this w = (Inr d, w1)" and "truthy d"
    and "decide (this\<lparr>repository := d\<rparr>) = Inr act" and "act \<noteq> NoAction"
  shows "sync this w =
     (Inr [Cmd \<lparr>source = ''Archive'', resource = repo this,
                endpoint = repos_update_endpoint (github this) (settings this),
                change = change_record (if act = Archive then ''archive'' else ''unarchive''),
                level = ''INFO''\<rparr>],
      this\<lparr>repository := d\<rparr>, w1)"
  using sync_act [OF assms(2-5)] assms(1)
  by (simp add: update_preview action_name_bool)

lemma sync_apply_trace:
  assumes "\<not> nop this" and "getRepo this w = (Inr d, w1)" and "truthy d"
    and "decide (this\<lparr>repository := d\<rparr>) = Inr act" and "act \<noteq> NoAction"
  shows "\<exists>tl. trace (snd (snd (sync this w))) =
               trace w1 @ ReposUpdate (update_params this (JBool (act = Archive))) # tl"
proof -
  have n: "\<not> nop (this\<lparr>repository := d\<rparr>)"
    using assms(1) by simp
  from update_apply_trace [OF n, of "JBool (act = Archive)" w1]
  obtain tl where tl:
    "trace (snd (updateRepoArchiveStatus (this\<lparr>repository := d\<rparr>) (JBool (act = Archive)) w1)) =
       trace w1 @ ReposUpdate (update_params this (JBool (act = Archive))) # tl"
    by auto
  show ?thesis
    using sync_act [OF assms(2-5)] tl
    by (cases "updateRepoArchiveStatus (this\<lparr>repository := d\<rparr>) (JBool (act = Archive)) w1")
       (auto split: sum.splits)
qed

lemma sync_instance:
  "sync this w = (res, this1, w1) \<Longrightarrow>
   settings this1 = settings this \<and> github this1 = github this \<and> repo this1 = repo this \<and>
   nop this1 = nop this"
  by (auto simp add: sync_def Let_def split: prod.splits sum.splits if_splits)

lemma getState_found:
  "getRepo this w = (Inr d, w1) \<Longrightarrow>
   getState this w =
     (tbind (shouldArchive (this\<lparr>repository := d\<rparr>) JUndefined) (\<lambda>sa.
      tbind (shouldUnarchive (this\<lparr>repository := d\<rparr>) JUndefined) (\<lambda>su.
        Inr (JObj [(''isArchived'', opt_get d ''archived''), (''shouldArchive'', sa),
                   (''shouldUnarchive'', su)]))),
      this\<lparr>repository := d\<rparr>, w1)"
  by (simp add: getState_def isArchived_def Let_def)

lemma preview_change_parity:
  assumes fetch: "getRepo this w = (Inr d, w1)" and found: "truthy d"
    and act: "decide (this\<lparr>repository := d\<rparr>) = Inr act" "act \<noteq> NoAction"
  shows "(\<exists>c. sync (this\<lparr>nop := True\<rparr>) w =
              (Inr [Cmd c], this\<lparr>nop := True, repository := d\<rparr>, w1) \<and>
            opt_get (opt_get (change c) ''modifications'') ''archived'' =
              JStr (if act = Archive then ''archive'' else ''unarchive'')) \<and>
         (\<exists>tl. trace (snd (snd (sync (this\<lparr>nop := False\<rparr>) w))) =
                trace w1 @ ReposUpdate (update_params this (JBool (act = Archive))) # tl)"
proof (intro conjI)
  have fp: "getRepo (this\<lparr>nop := n\<rparr>) w = (Inr d, w1)" for n
    using fetch by simp
  have dp: "decide (this\<lparr>nop := n\<rparr>\<lparr>repository := d\<rparr>) = Inr act" for n
    using act(1) decide_cong [of "this\<lparr>nop := n\<rparr>\<lparr>repository := d\<rparr>" "this\<lparr>repository := d\<rparr>"]
    by simp
  show "\<exists>c. sync (this\<lparr>nop := True\<rparr>) w =
              (Inr [Cmd c], this\<lparr>nop := True, repository := d\<rparr>, w1) \<and>
            opt_get (opt_get (change c) ''modifications'') ''archived'' =
              JStr (if act = Archive then ''archive'' else ''unarchive'')"
    using sync_preview [OF _ fp found dp act(2), of True]
    by (simp add: modifications_archived)
  show "\<exists>tl. trace (snd (snd (sync (this\<lparr>nop := False\<rparr>) w))) =
      trace w1 @ ReposUpdate (update_params this (JBool (act = Archive))) # tl"
    using sync_apply_trace [OF _ fp found dp act(2), of False] by simp
qed

section \<open>Facts: the test doubles\<close>

lemma plugin_simps [simp]:
  "settings (plugin n s r) = s" "repository (plugin n s r) = r" "nop (plugin n s r) = n"
  "repo (plugin n s r) = test_repo" "github (plugin n s r) = memory_github"
  by (simp_all add: plugin_def new_Archive_def)

lemma plugin_repository [simp]: "(plugin n s r)\<lparr>repository := d\<rparr> = plugin n s d"
  by (simp add: plugin_def)

lemmas run_defs = getRepo_def await_data_def get_prop_def emit_def get_params_def update_params_def
  memory_github_def failing_github_def test_repo_def world0_def archived_obj_def
  not_found_message_def no_changes_message_def updated_message_def action_name_def change_record_def
  Let_def

section \<open>Claims\<close>

text \<open>
  C4. The state normalizer \<open>getDesiredArchiveState\<close> never throws. It returns \<open>null\<close>
  (unset) when \<open>settings?.archived\<close> is \<open>undefined\<close>, a boolean as it is, \<open>true\<close> for
  the exact string \<open>"true"\<close>, and \<open>false\<close> for every other value.
\<close>

theorem getDesiredArchiveState_normalizes:
  "(opt_get (settings this) ''archived'' = JUndefined \<longrightarrow>
      getDesiredArchiveState this = Inr JNull) \<and>
   (opt_get (settings this) ''archived'' = JBool b \<longrightarrow>
      getDesiredArchiveState this = Inr (JBool b)) \<and>
   (opt_get (settings this) ''archived'' = JStr ''true'' \<longrightarrow>
      getDesiredArchiveState this = Inr (JBool True)) \<and>
   (opt_get (settings this) ''archived'' \<noteq> JUndefined \<and>
    (\<forall>b. opt_get (settings this) ''archived'' \<noteq> JBool b) \<and>
    opt_get (settings this) ''archived'' \<noteq> JStr ''true'' \<longrightarrow>
      getDesiredArchiveState this = Inr (JBool False)) \<and>
   (\<forall>e. getDesiredArchiveState this \<noteq> Inl e)"
  by (cases "opt_get (settings this) ''archived''")
     (auto simp add: getDesiredArchiveState_eq)

text \<open>Witness of C4: the theorem on the test doubles.\<close>

theorem getDesiredArchiveState_normalizes_witness:
  "getDesiredArchiveState (plugin False (JObj []) JUndefined) = Inr JNull \<and>
   getDesiredArchiveState (plugin False JUndefined JUndefined) = Inr JNull \<and>
   getDesiredArchiveState (plugin False (archived_obj (JBool True)) JUndefined) = Inr (JBool True) \<and>
   getDesiredArchiveState (plugin False (archived_obj (JBool False)) JUndefined) = Inr (JBool False) \<and>
   getDesiredArchiveState (plugin False (archived_obj (JStr ''true'')) JUndefined) = Inr (JBool True) \<and>
   getDesiredArchiveState (plugin False (archived_obj (JStr ''false'')) JUndefined) = Inr (JBool False) \<and>
   getDesiredArchiveState (plugin False (archived_obj (JStr ''TRUE'')) JUndefined) = Inr (JBool False) \<and>
   getDesiredArchiveState (plugin False (archived_obj (JStr ''1'')) JUndefined) = Inr (JBool False) \<and>
   getDesiredArchiveState (plugin False (archived_obj (JNum 1)) JUndefined) = Inr (JBool False)"
  using getDesiredArchiveState_normalizes [of "plugin False (JObj []) JUndefined"]
    getDesiredArchiveState_normalizes [of "plugin False JUndefined JUndefined"]
    getDesiredArchiveState_normalizes [of "plugin False (archived_obj (JBool True)) JUndefined" True]
    getDesiredArchiveState_normalizes [of "plugin False (archived_obj (JBool False)) JUndefined" False]
    getDesiredArchiveState_normalizes [of "plugin False (archived_obj (JStr ''true'')) JUndefined"]
    getDesiredArchiveState_normalizes [of "plugin False (archived_obj (JStr ''false'')) JUndefined"]
    getDesiredArchiveState_normalizes [of "plugin False (archived_obj (JStr ''TRUE'')) JUndefined"]
    getDesiredArchiveState_normalizes [of "plugin False (archived_obj (JStr ''1'')) JUndefined"]
    getDesiredArchiveState_normalizes [of "plugin False (archived_obj (JNum 1)) JUndefined"]
  by (simp add: archived_obj_def)

text \<open>
  C1. The action \<open>sync\<close> selects is \<open>Archive\<close> exactly when the desired state is \<open>true\<close> and
  the observed \<open>archived\<close> attribute is falsy, \<open>Unarchive\<close> exactly when the desired state
  is \<open>false\<close> and the attribute is truthy, and none in every other case, always so when
  the desired state is unset. \<open>shouldArchive\<close> and \<open>shouldUnarchive\<close> are truthy in
  exactly these two cases, and \<open>sync\<close> on a fetched repository does what the action
  says: nothing but a debug entry for none, otherwise \<open>updateRepoArchiveStatus\<close> with
  \<open>true\<close> for \<open>Archive\<close> and \<open>false\<close> for \<open>Unarchive\<close>.
\<close>

theorem decide_iff:
  "(decide this = Inr Archive \<longleftrightarrow>
      getDesiredArchiveState this = Inr (JBool True) \<and>
      \<not> truthy (opt_get (repository this) ''archived'')) \<and>
   (decide this = Inr Unarchive \<longleftrightarrow>
      getDesiredArchiveState this = Inr (JBool False) \<and>
      truthy (opt_get (repository this) ''archived'')) \<and>
   (decide this = Inr NoAction \<longleftrightarrow>
      \<not> (getDesiredArchiveState this = Inr (JBool True) \<and>
         \<not> truthy (opt_get (repository this) ''archived'')) \<and>
      \<not> (getDesiredArchiveState this = Inr (JBool False) \<and>
         truthy (opt_get (repository this) ''archived''))) \<and>
   (getDesiredArchiveState this = Inr JNull \<longrightarrow> decide this = Inr NoAction) \<and>
   shouldArchive this JUndefined =
     Inr (JBool (getDesiredArchiveState this = Inr (JBool True) \<and>
                 \<not> truthy (opt_get (repository this) ''archived''))) \<and>
   (\<exists>su. shouldUnarchive this JUndefined = Inr su \<and>
      (truthy su \<longleftrightarrow> getDesiredArchiveState this = Inr (JBool False) \<and>
                     truthy (opt_get (repository this) ''archived''))) \<and>
   (\<forall>w d w1. getRepo this w = (Inr d, w1) \<longrightarrow> truthy d \<longrightarrow>
      sync this w =
        (case decide (this\<lparr>repository := d\<rparr>) of
           Inl e \<Rightarrow> (Inl e, this\<lparr>repository := d\<rparr>, w1)
         | Inr NoAction \<Rightarrow>
             (Inr [], this\<lparr>repository := d\<rparr>,
              emit (LogDebug [JStr (no_changes_message this)]) w1)
         | Inr act \<Rightarrow>
             (case updateRepoArchiveStatus (this\<lparr>repository := d\<rparr>) (JBool (act = Archive)) w1 of
                (Inl e, w2) \<Rightarrow> (Inl e, this\<lparr>repository := d\<rparr>, w2)
              | (Inr r, w2) \<Rightarrow> (Inr [r], this\<lparr>repository := d\<rparr>, w2))))"
proof -
  have "\<forall>w d w1. getRepo this w = (Inr d, w1) \<longrightarrow> truthy d \<longrightarrow>
      sync this w =
        (case decide (this\<lparr>repository := d\<rparr>) of
           Inl e \<Rightarrow> (Inl e, this\<lparr>repository := d\<rparr>, w1)
         | Inr NoAction \<Rightarrow>
             (Inr [], this\<lparr>repository := d\<rparr>,
              emit (LogDebug [JStr (no_changes_message this)]) w1)
         | Inr act \<Rightarrow>
             (case updateRepoArchiveStatus (this\<lparr>repository := d\<rparr>) (JBool (act = Archive)) w1 of
                (Inl e, w2) \<Rightarrow> (Inl e, this\<lparr>repository := d\<rparr>, w2)
              | (Inr r, w2) \<Rightarrow> (Inr [r], this\<lparr>repository := d\<rparr>, w2)))"
    using sync_decide by blast
  moreover have "decide this = Inr Archive \<longleftrightarrow>
      getDesiredArchiveState this = Inr (JBool True) \<and>
      \<not> truthy (opt_get (repository this) ''archived'')"
    by (rule decide_Archive_iff)
  moreover have "decide this = Inr Unarchive \<longleftrightarrow>
      getDesiredArchiveState this = Inr (JBool False) \<and>
      truthy (opt_get (repository this) ''archived'')"
    by (rule decide_Unarchive_iff)
  moreover have "decide this = Inr NoAction \<longleftrightarrow>
      \<not> (getDesiredArchiveState this = Inr (JBool True) \<and>
         \<not> truthy (opt_get (repository this) ''archived'')) \<and>
      \<not> (getDesiredArchiveState this = Inr (JBool False) \<and>
         truthy (opt_get (repository this) ''archived''))"
    by (auto simp add: decide_eq)
  moreover have "getDesiredArchiveState this = Inr JNull \<longrightarrow> decide this = Inr NoAction"
    by (simp add: decide_eq)
  moreover have "shouldArchive this JUndefined =
     Inr (JBool (getDesiredArchiveState this = Inr (JBool True) \<and>
                 \<not> truthy (opt_get (repository this) ''archived'')))"
    by (simp add: shouldArchive_arg)
  moreover have "\<exists>su. shouldUnarchive this JUndefined = Inr su \<and>
      (truthy su \<longleftrightarrow> getDesiredArchiveState this = Inr (JBool False) \<and>
                     truthy (opt_get (repository this) ''archived''))"
    by (auto simp add: shouldUnarchive_arg)
  ultimately show ?thesis
    by (intro conjI)
qed

text \<open>Witness of C1: the theorem on the test doubles.\<close>

theorem decide_iff_witness:
  "decide (plugin False (archived_obj (JBool True)) (archived_obj (JBool False))) = Inr Archive \<and>
   decide (plugin False (archived_obj (JBool False)) (archived_obj (JBool True))) = Inr Unarchive \<and>
   decide (plugin False (archived_obj (JBool True)) (archived_obj (JBool True))) = Inr NoAction \<and>
   decide (plugin False (archived_obj (JBool False)) (archived_obj (JBool False))) = Inr NoAction \<and>
   getDesiredArchiveState (plugin False (JObj []) (archived_obj (JBool True))) = Inr JNull \<and>
   decide (plugin False (JObj []) (archived_obj (JBool True))) = Inr NoAction \<and>
   decide (plugin False (JObj []) (archived_obj (JBool False))) = Inr NoAction"
  using decide_iff [of "plugin False (archived_obj (JBool True)) (archived_obj (JBool False))"]
    decide_iff [of "plugin False (archived_obj (JBool False)) (archived_obj (JBool True))"]
    decide_iff [of "plugin False (archived_obj (JBool True)) (archived_obj (JBool True))"]
    decide_iff [of "plugin False (archived_obj (JBool False)) (archived_obj (JBool False))"]
    decide_iff [of "plugin False (JObj []) (archived_obj (JBool True))"]
    decide_iff [of "plugin False (JObj []) (archived_obj (JBool False))"]
  by (simp add: getDesiredArchiveState_eq archived_obj_def)

text \<open>
  C8. \<open>shouldArchive\<close> and \<open>shouldUnarchive\<close> are never both truthy, on any
  repository argument; the decision is one of the three actions; and \<open>Archive\<close> or
  \<open>Unarchive\<close> is selected only when the desired state is a boolean that differs from
  the observed \<open>archived\<close> attribute.
\<close>

theorem decision_exclusive:
  "(\<forall>sa su. shouldArchive this arg = Inr sa \<longrightarrow> shouldUnarchive this arg = Inr su \<longrightarrow>
      \<not> (truthy sa \<and> truthy su)) \<and>
   (\<exists>act. decide this = Inr act) \<and>
   (decide this = Inr Archive \<or> decide this = Inr Unarchive \<longrightarrow>
      (\<exists>b. getDesiredArchiveState this = Inr (JBool b) \<and>
           opt_get (repository this) ''archived'' \<noteq> JBool b \<and>
           truthy (opt_get (repository this) ''archived'') \<noteq> b))"
proof (intro conjI allI impI)
  fix sa su
  assume "shouldArchive this arg = Inr sa" and "shouldUnarchive this arg = Inr su"
  then show "\<not> (truthy sa \<and> truthy su)"
    by (rule should_exclusive)
next
  show "\<exists>act. decide this = Inr act"
    by (rule decide_total)
next
  assume act: "decide this = Inr Archive \<or> decide this = Inr Unarchive"
  then consider
      "getDesiredArchiveState this = Inr (JBool True)"
        "\<not> truthy (opt_get (repository this) ''archived'')"
    | "getDesiredArchiveState this = Inr (JBool False)"
        "truthy (opt_get (repository this) ''archived'')"
    unfolding decide_Archive_iff decide_Unarchive_iff by blast
  then show "\<exists>b. getDesiredArchiveState this = Inr (JBool b) \<and>
           opt_get (repository this) ''archived'' \<noteq> JBool b \<and>
           truthy (opt_get (repository this) ''archived'') \<noteq> b"
  proof cases
    case 1
    then show ?thesis by (intro exI [of _ True]) auto
  next
    case 2
    then show ?thesis by (intro exI [of _ False]) auto
  qed
qed

text \<open>Witness of C8: the theorem on the test doubles.\<close>

theorem decision_exclusive_witness:
  "shouldArchive (plugin False (archived_obj (JBool True)) (archived_obj (JBool False))) JUndefined = Inr (JBool True) \<and>
   shouldUnarchive (plugin False (archived_obj (JBool True)) (archived_obj (JBool False))) JUndefined = Inr (JBool False) \<and>
   \<not> (truthy (JBool True) \<and> truthy (JBool False)) \<and>
   decide (plugin False (archived_obj (JBool True)) (archived_obj (JBool False))) = Inr Archive \<and>
   getDesiredArchiveState (plugin False (archived_obj (JBool True)) (archived_obj (JBool False))) = Inr (JBool True) \<and>
   opt_get (repository (plugin False (archived_obj (JBool True)) (archived_obj (JBool False)))) ''archived'' \<noteq> JBool True"
  using decision_exclusive [of "plugin False (archived_obj (JBool True)) (archived_obj (JBool False))" JUndefined]
  by (simp add: decide_eq shouldArchive_arg shouldUnarchive_arg getDesiredArchiveState_eq
      archived_obj_def)

text \<open>
  C6. When the remote \<open>get\<close> rejects, \<open>getRepo\<close> returns \<open>null\<close> exactly when the
  status of the error is 404, and otherwise throws the very error it caught; in both cases
  \<open>get\<close> has been called once.
\<close>

theorem getRepo_not_found_or_propagate:
  assumes "repos_get (github this) (get_params this) (remote w) = (Inl rej, r')"
  shows "(fst (getRepo this w) = Inr JNull \<longleftrightarrow> opt_get (JObj rej) ''status'' = JNum 404) \<and>
         (opt_get (JObj rej) ''status'' \<noteq> JNum 404 \<longrightarrow>
            fst (getRepo this w) = Inl (Rejected rej)) \<and>
         snd (getRepo this w) =
            \<lparr>remote = r', trace = trace w @ [ReposGet (get_params this)]\<rparr>"
  by (simp add: getRepo_rejected [OF assms])

text \<open>Witness of C6: the theorem on the test doubles.\<close>

theorem getRepo_not_found_or_propagate_witness:
  "repos_get (github (plugin False (JObj []) JUndefined))
       (get_params (plugin False (JObj []) JUndefined)) (remote (world0 JNull)) =
     (Inl [(''status'', JNum 404)], JNull) \<and>
   fst (getRepo (plugin False (JObj []) JUndefined) (world0 JNull)) = Inr JNull \<and>
   repos_get (github (new_Archive False (failing_github [(''status'', JNum 500)]) test_repo (JObj [])))
       (get_params (new_Archive False (failing_github [(''status'', JNum 500)]) test_repo (JObj [])))
       (remote (world0 ())) =
     (Inl [(''status'', JNum 500)], ()) \<and>
   fst (getRepo (new_Archive False (failing_github [(''status'', JNum 500)]) test_repo (JObj []))
          (world0 ())) = Inl (Rejected [(''status'', JNum 500)]) \<and>
   trace (snd (getRepo (new_Archive False (failing_github [(''status'', JNum 500)]) test_repo (JObj []))
          (world0 ()))) =
     [ReposGet (JObj [(''owner'', JStr ''test-owner''), (''repo'', JStr ''test-repo'')])]"
proof -
  have h1: "repos_get (github (plugin False (JObj []) JUndefined))
       (get_params (plugin False (JObj []) JUndefined)) (remote (world0 JNull)) =
     (Inl [(''status'', JNum 404)], JNull)"
    by (simp add: memory_github_def world0_def)
  have h2: "repos_get (github (new_Archive False (failing_github [(''status'', JNum 500)]) test_repo (JObj [])))
       (get_params (new_Archive False (failing_github [(''status'', JNum 500)]) test_repo (JObj [])))
       (remote (world0 ())) =
     (Inl [(''status'', JNum 500)], ())"
    by (simp add: failing_github_def new_Archive_def)
  show ?thesis
    using h1 h2 getRepo_not_found_or_propagate [OF h1] getRepo_not_found_or_propagate [OF h2]
    by (simp add: world0_def get_params_def new_Archive_def test_repo_def)
qed

text \<open>
  C5. Once the repository is fetched, \<open>sync\<close> returns a list of at most one entry. The
  list is empty when the fetched repository is falsy, the absent resource, in which case
  one warning is logged after the one call of \<open>get\<close> and \<open>update\<close> is not called; it is
  empty when no action is selected, which is when the desired state is unset or is the
  truth value of the observed \<open>archived\<close> attribute; and it has one entry when an action
  is selected, unless the remote update of the apply mode fails. A rejection of \<open>get\<close>
  with status 404 is the absent resource.
\<close>

theorem sync_zero_or_one:
  assumes fetch: "getRepo this w = (Inr d, w1)"
  shows "(\<forall>xs. fst (sync this w) = Inr xs \<longrightarrow> length xs \<le> 1) \<and>
         (\<not> truthy d \<longrightarrow>
            sync this w =
              (Inr [], this\<lparr>repository := d\<rparr>,
               \<lparr>remote = remote w1,
                trace = trace w @ [ReposGet (get_params this),
                                   LogWarn [JStr (not_found_message this)]]\<rparr>)) \<and>
         (truthy d \<and> decide (this\<lparr>repository := d\<rparr>) = Inr NoAction \<longrightarrow>
            sync this w =
              (Inr [], this\<lparr>repository := d\<rparr>,
               \<lparr>remote = remote w1,
                trace = trace w @ [ReposGet (get_params this),
                                   LogDebug [JStr (no_changes_message this)]]\<rparr>)) \<and>
         (truthy d \<and> decide (this\<lparr>repository := d\<rparr>) \<noteq> Inr NoAction \<longrightarrow>
            (\<exists>r w2. sync this w = (Inr [r], this\<lparr>repository := d\<rparr>, w2)) \<or>
            (\<not> nop this \<and> (\<exists>e w2. sync this w = (Inl e, this\<lparr>repository := d\<rparr>, w2)))) \<and>
         (decide (this\<lparr>repository := d\<rparr>) = Inr NoAction \<longleftrightarrow>
            getDesiredArchiveState this = Inr JNull \<or>
            getDesiredArchiveState this = Inr (JBool (truthy (opt_get d ''archived'')))) \<and>
         (\<forall>rej r'. repos_get (github this) (get_params this) (remote w) = (Inl rej, r') \<longrightarrow>
            opt_get (JObj rej) ''status'' = JNum 404 \<longrightarrow>
            d = JNull \<and> remote w1 = r')"
proof -
  have tr: "trace w1 = trace w @ [ReposGet (get_params this)]"
    using fetch by (rule getRepo_trace)
  have absent: "sync this w =
      (Inr [], this\<lparr>repository := d\<rparr>,
       \<lparr>remote = remote w1,
        trace = trace w @ [ReposGet (get_params this),
                           LogWarn [JStr (not_found_message this)]]\<rparr>)"
    if "\<not> truthy d"
    using sync_absent [OF fetch that] tr by simp
  have compliant: "sync this w =
      (Inr [], this\<lparr>repository := d\<rparr>,
       \<lparr>remote = remote w1,
        trace = trace w @ [ReposGet (get_params this),
                           LogDebug [JStr (no_changes_message this)]]\<rparr>)"
    if "truthy d" "decide (this\<lparr>repository := d\<rparr>) = Inr NoAction"
    using sync_compliant [OF fetch that] tr by simp
  have act: "(\<exists>r w2. sync this w = (Inr [r], this\<lparr>repository := d\<rparr>, w2)) \<or>
      (\<not> nop this \<and> (\<exists>e w2. sync this w = (Inl e, this\<lparr>repository := d\<rparr>, w2)))"
    if t: "truthy d" and n: "decide (this\<lparr>repository := d\<rparr>) \<noteq> Inr NoAction"
  proof -
    obtain a where a: "decide (this\<lparr>repository := d\<rparr>) = Inr a"
      using decide_total by blast
    with n have "a \<noteq> NoAction" by auto
    note s = sync_act [OF fetch t a this]
    show ?thesis
    proof (cases "nop this")
      case True
      then show ?thesis
        using s by (simp add: update_preview)
    next
      case False
      obtain res w2 where u:
        "updateRepoArchiveStatus (this\<lparr>repository := d\<rparr>) (JBool (a = Archive)) w1 = (res, w2)"
        by (cases "updateRepoArchiveStatus (this\<lparr>repository := d\<rparr>) (JBool (a = Archive)) w1")
      show ?thesis
        using s u False by (cases res) simp_all
    qed
  qed
  have len: "length xs \<le> 1" if "fst (sync this w) = Inr xs" for xs
  proof (cases "truthy d")
    case False
    with that absent show ?thesis by simp
  next
    case True
    show ?thesis
    proof (cases "decide (this\<lparr>repository := d\<rparr>) = Inr NoAction")
      case True
      with \<open>truthy d\<close> that compliant show ?thesis by simp
    next
      case False
      with \<open>truthy d\<close> that act show ?thesis by auto
    qed
  qed
  have nf: "d = JNull \<and> remote w1 = r'"
    if "repos_get (github this) (get_params this) (remote w) = (Inl rej, r')"
      "opt_get (JObj rej) ''status'' = JNum 404" for rej r'
    using getRepo_rejected [OF that(1)] that(2) fetch by simp
  have comp: "decide (this\<lparr>repository := d\<rparr>) = Inr NoAction \<longleftrightarrow>
      getDesiredArchiveState this = Inr JNull \<or>
      getDesiredArchiveState this = Inr (JBool (truthy (opt_get d ''archived'')))"
    by (simp add: decide_NoAction_compliant)
  from len absent compliant act comp nf show ?thesis by blast
qed

text \<open>Witness of C5: the theorem on the test doubles.\<close>

theorem sync_zero_or_one_witness:
  "sync (plugin False (archived_obj (JBool True)) JUndefined) (world0 JNull) =
     (Inr [], plugin False (archived_obj (JBool True)) JNull,
      \<lparr>remote = JNull,
       trace = [ReposGet (JObj [(''owner'', JStr ''test-owner''), (''repo'', JStr ''test-repo'')]),
                LogWarn [JStr ''Repo test-owner/test-repo not found, skipping archive sync'']]\<rparr>) \<and>
   sync (plugin False (archived_obj (JBool False)) JUndefined) (world0 (archived_obj (JBool False))) =
     (Inr [], plugin False (archived_obj (JBool False)) (archived_obj (JBool False)),
      \<lparr>remote = archived_obj (JBool False),
       trace = [ReposGet (JObj [(''owner'', JStr ''test-owner''), (''repo'', JStr ''test-repo'')]),
                LogDebug [JStr ''No archive changes needed for test-owner/test-repo'']]\<rparr>) \<and>
   (\<exists>r w2. sync (plugin True (archived_obj (JBool True)) JUndefined)
              (world0 (archived_obj (JBool False))) =
      (Inr [r], plugin True (archived_obj (JBool True)) (archived_obj (JBool False)), w2))"
proof -
  let ?get = "ReposGet (JObj [(''owner'', JStr ''test-owner''), (''repo'', JStr ''test-repo'')])"
  have f1: "getRepo (plugin False (archived_obj (JBool True)) JUndefined) (world0 JNull) =
      (Inr JNull, \<lparr>remote = JNull, trace = [?get]\<rparr>)"
    by (simp add: run_defs)
  have f2: "getRepo (plugin n s JUndefined) (world0 (archived_obj (JBool False))) =
      (Inr (archived_obj (JBool False)),
       \<lparr>remote = archived_obj (JBool False), trace = [?get]\<rparr>)" for n s
    by (simp add: run_defs)
  have t: "truthy (archived_obj (JBool False))" "\<not> truthy JNull"
    by (simp_all add: archived_obj_def)
  have d2: "decide (plugin False (archived_obj (JBool False)) (archived_obj (JBool False))) =
      Inr NoAction"
    by (simp add: decide_eq getDesiredArchiveState_eq archived_obj_def)
  have d3: "decide (plugin True (archived_obj (JBool True)) (archived_obj (JBool False))) =
      Inr Archive"
    by (simp add: decide_eq getDesiredArchiveState_eq archived_obj_def)
  show ?thesis
    using sync_zero_or_one [OF f1] sync_zero_or_one [OF f2 [of False "archived_obj (JBool False)"]]
      sync_zero_or_one [OF f2 [of True "archived_obj (JBool True)"]] t d2 d3
    by (simp add: world0_def get_params_def not_found_message_def no_changes_message_def
        test_repo_def)
qed

text \<open>
  C7. After a first \<open>sync\<close> that returned one entry, if the repository then fetched has
  an \<open>archived\<close> attribute equal to the desired state of the unchanged settings, a second
  \<open>sync\<close> selects no action and returns the empty list, having called \<open>get\<close> once and
  \<open>update\<close> not at all.
\<close>

theorem sync_idempotent:
  assumes first: "sync this w = (Inr [x], this1, w1)"
    and fetch: "getRepo this1 w1 = (Inr d, w2)"
    and same: "getDesiredArchiveState this = Inr (opt_get d ''archived'')"
  shows "decide (this1\<lparr>repository := d\<rparr>) = Inr NoAction \<and>
         sync this1 w1 =
           (Inr [], this1\<lparr>repository := d\<rparr>,
            \<lparr>remote = remote w2,
             trace = trace w1 @ [ReposGet (get_params this),
                                 LogDebug [JStr (no_changes_message this)]]\<rparr>)"
proof -
  from sync_instance [OF first]
  have inst: "settings this1 = settings this" "repo this1 = repo this"
    by simp_all
  have des: "getDesiredArchiveState (this1\<lparr>repository := d\<rparr>) = Inr (opt_get d ''archived'')"
    using same desired_settings [OF inst(1)] by simp
  from inst have names: "get_params this1 = get_params this"
      "no_changes_message this1 = no_changes_message this"
    by (simp_all add: get_params_def no_changes_message_def)
  from desired_cases [of this] same have "opt_get d ''archived'' \<noteq> JUndefined"
    by auto
  then have t: "truthy d"
    by (rule opt_get_defined)
  from desired_cases [of this] same
  have "opt_get d ''archived'' = JNull \<or>
        opt_get d ''archived'' = JBool (truthy (opt_get d ''archived''))"
    by auto
  with des have none: "decide (this1\<lparr>repository := d\<rparr>) = Inr NoAction"
    by (simp add: decide_NoAction_compliant)
  from sync_compliant [OF fetch t none] getRepo_trace [OF fetch] names
  show ?thesis
    using none by simp
qed

text \<open>Witness of C7: the theorem on the test doubles.\<close>

theorem sync_idempotent_witness:
  "sync (plugin False (archived_obj (JBool True)) JUndefined) (world0 (archived_obj (JBool False))) =
     (Inr [Val JUndefined], plugin False (archived_obj (JBool True)) (archived_obj (JBool False)),
      \<lparr>remote = archived_obj (JBool True),
       trace = [ReposGet (get_params (plugin False (archived_obj (JBool True)) JUndefined)),
                ReposUpdate (update_params (plugin False (archived_obj (JBool True)) JUndefined) (JBool True)),
                LogDebug [JObj [(''result'', archived_obj (JBool True))],
                          JStr ''Repo test-owner/test-repo archived'']]\<rparr>) \<and>
   sync (plugin False (archived_obj (JBool True)) (archived_obj (JBool False)))
      \<lparr>remote = archived_obj (JBool True),
       trace = [ReposGet (get_params (plugin False (archived_obj (JBool True)) JUndefined)),
                ReposUpdate (update_params (plugin False (archived_obj (JBool True)) JUndefined) (JBool True)),
                LogDebug [JObj [(''result'', archived_obj (JBool True))],
                          JStr ''Repo test-owner/test-repo archived'']]\<rparr> =
     (Inr [], plugin False (archived_obj (JBool True)) (archived_obj (JBool True)),
      \<lparr>remote = archived_obj (JBool True),
       trace = [ReposGet (get_params (plugin False (archived_obj (JBool True)) JUndefined)),
                ReposUpdate (update_params (plugin False (archived_obj (JBool True)) JUndefined) (JBool True)),
                LogDebug [JObj [(''result'', archived_obj (JBool True))],
                          JStr ''Repo test-owner/test-repo archived''],
                ReposGet (get_params (plugin False (archived_obj (JBool True)) JUndefined)),
                LogDebug [JStr ''No archive changes needed for test-owner/test-repo'']]\<rparr>)"
proof -
  let ?S = "archived_obj (JBool True)"
  let ?p = "plugin False ?S JUndefined"
  let ?w1 = "\<lparr>remote = archived_obj (JBool True),
       trace = [ReposGet (get_params ?p), ReposUpdate (update_params ?p (JBool True)),
                LogDebug [JObj [(''result'', archived_obj (JBool True))],
                          JStr ''Repo test-owner/test-repo archived'']]\<rparr>"
  have first: "sync ?p (world0 (archived_obj (JBool False))) =
      (Inr [Val JUndefined], plugin False ?S (archived_obj (JBool False)), ?w1)"
    by (simp add: sync_def shouldArchive_arg shouldUnarchive_arg getDesiredArchiveState_eq
        updateRepoArchiveStatus_def run_defs)
  have fetch: "getRepo (plugin False ?S (archived_obj (JBool False))) ?w1 =
      (Inr (archived_obj (JBool True)),
       ?w1\<lparr>trace := trace ?w1 @ [ReposGet (get_params ?p)]\<rparr>)"
    by (simp add: run_defs)
  have same: "getDesiredArchiveState ?p = Inr (opt_get (archived_obj (JBool True)) ''archived'')"
    by (simp add: getDesiredArchiveState_eq archived_obj_def)
  from sync_idempotent [OF first fetch same] first
  show ?thesis
    by (simp add: no_changes_message_def test_repo_def)
qed

text \<open>
  C9. When \<open>settings.archived\<close> is \<open>null\<close>, \<open>getDesiredArchiveState\<close> returns
  \<open>false\<close>, not \<open>null\<close>; a \<open>sync\<close> that fetches a repository whose \<open>archived\<close>
  attribute is truthy then selects \<open>Unarchive\<close>: in preview mode it returns the
  artifact of an unarchive, in apply mode it calls \<open>update\<close> with \<open>archived: false\<close>.
\<close>

theorem null_setting_unarchives:
  assumes null: "opt_get (settings this) ''archived'' = JNull"
  shows "getDesiredArchiveState this = Inr (JBool False) \<and>
         (\<forall>d w1. getRepo this w = (Inr d, w1) \<longrightarrow> truthy (opt_get d ''archived'') \<longrightarrow>
            decide (this\<lparr>repository := d\<rparr>) = Inr Unarchive \<and>
            (nop this \<longrightarrow>
               sync this w =
                 (Inr [Cmd \<lparr>source = ''Archive'', resource = repo this,
                            endpoint = repos_update_endpoint (github this) (settings this),
                            change = change_record ''unarchive'', level = ''INFO''\<rparr>],
                  this\<lparr>repository := d\<rparr>, w1)) \<and>
            (\<not> nop this \<longrightarrow>
               (\<exists>tl. trace (snd (snd (sync this w))) =
                     trace w1 @ ReposUpdate (update_params this (JBool False)) # tl)))"
proof (intro conjI allI impI)
  show des: "getDesiredArchiveState this = Inr (JBool False)"
    using null by (simp add: getDesiredArchiveState_eq)
  fix d w1
  assume fetch: "getRepo this w = (Inr d, w1)" and arch: "truthy (opt_get d ''archived'')"
  from arch have t: "truthy d"
    by (rule truthy_opt_get)
  show un: "decide (this\<lparr>repository := d\<rparr>) = Inr Unarchive"
    using des arch by (simp add: decide_Unarchive_iff)
  show "sync this w =
      (Inr [Cmd \<lparr>source = ''Archive'', resource = repo this,
                 endpoint = repos_update_endpoint (github this) (settings this),
                 change = change_record ''unarchive'', level = ''INFO''\<rparr>],
       this\<lparr>repository := d\<rparr>, w1)" if "nop this"
    using sync_preview [OF that fetch t un] by simp
  show "\<exists>tl. trace (snd (snd (sync this w))) =
             trace w1 @ ReposUpdate (update_params this (JBool False)) # tl" if "\<not> nop this"
    using sync_apply_trace [OF that fetch t un] by simp
qed

text \<open>Witness of C9: the theorem on the test doubles.\<close>

theorem null_setting_unarchives_witness:
  "opt_get (settings (plugin True (archived_obj JNull) JUndefined)) ''archived'' = JNull \<and>
   getDesiredArchiveState (plugin True (archived_obj JNull) JUndefined) = Inr (JBool False) \<and>
   sync (plugin True (archived_obj JNull) JUndefined) (world0 (archived_obj (JBool True))) =
     (Inr [Cmd \<lparr>source = ''Archive'', resource = test_repo,
                endpoint = repos_update_endpoint memory_github (archived_obj JNull),
                change = change_record ''unarchive'', level = ''INFO''\<rparr>],
      plugin True (archived_obj JNull) (archived_obj (JBool True)),
      \<lparr>remote = archived_obj (JBool True),
       trace = [ReposGet (JObj [(''owner'', JStr ''test-owner''), (''repo'', JStr ''test-repo'')])]\<rparr>) \<and>
   (\<exists>tl. trace (snd (snd (sync (plugin False (archived_obj JNull) JUndefined)
                              (world0 (archived_obj (JBool True)))))) =
      [ReposGet (JObj [(''owner'', JStr ''test-owner''), (''repo'', JStr ''test-repo'')]),
       ReposUpdate (JObj [(''owner'', JStr ''test-owner''), (''repo'', JStr ''test-repo''),
                          (''archived'', JBool False)])] @ tl)"
proof -
  have n: "opt_get (settings (plugin b (archived_obj JNull) JUndefined)) ''archived'' = JNull" for b
    by (simp add: archived_obj_def)
  have f: "getRepo (plugin b (archived_obj JNull) JUndefined) (world0 (archived_obj (JBool True))) =
      (Inr (archived_obj (JBool True)),
       \<lparr>remote = archived_obj (JBool True),
        trace = [ReposGet (JObj [(''owner'', JStr ''test-owner''), (''repo'', JStr ''test-repo'')])]\<rparr>)" for b
    by (simp add: run_defs)
  have a: "truthy (opt_get (archived_obj (JBool True)) ''archived'')"
    by (simp add: archived_obj_def)
  show ?thesis
    using null_setting_unarchives [OF n [of True], of "world0 (archived_obj (JBool True))"]
      null_setting_unarchives [OF n [of False], of "world0 (archived_obj (JBool True))"]
      n [of True] f a
    by (simp add: update_params_def test_repo_def)
qed

text \<open>
  C10. With a desired state of \<open>true\<close>, on a repository that is \<open>null\<close> or
  \<open>undefined\<close>, \<open>shouldArchive\<close> returns \<open>true\<close> and \<open>shouldUnarchive\<close> returns
  \<open>undefined\<close>. So \<open>getState\<close> on a repository that is not found reports
  \<open>shouldArchive: true\<close>, while \<open>sync\<close> returns early with the empty list and one
  warning.
\<close>

theorem absent_repository_unguarded:
  assumes want: "getDesiredArchiveState this = Inr (JBool True)"
  shows "shouldArchive this JNull = Inr (JBool True) \<and>
         shouldUnarchive this JNull = Inr JUndefined \<and>
         (repository this = JNull \<or> repository this = JUndefined \<longrightarrow>
            shouldArchive this JUndefined = Inr (JBool True) \<and>
            shouldUnarchive this JUndefined = Inr JUndefined) \<and>
         (\<forall>w1. getRepo this w = (Inr JNull, w1) \<longrightarrow>
            getState this w =
              (Inr (JObj [(''isArchived'', JUndefined), (''shouldArchive'', JBool True),
                          (''shouldUnarchive'', JUndefined)]),
               this\<lparr>repository := JNull\<rparr>, w1) \<and>
            sync this w =
              (Inr [], this\<lparr>repository := JNull\<rparr>,
               w1\<lparr>trace := trace w1 @ [LogWarn [JStr (not_found_message this)]]\<rparr>))"
proof (intro conjI allI impI)
  show "shouldArchive this JNull = Inr (JBool True)"
    using want by (simp add: shouldArchive_arg default_param_def)
  show "shouldUnarchive this JNull = Inr JUndefined"
    using want by (simp add: shouldUnarchive_arg default_param_def)
  show "shouldArchive this JUndefined = Inr (JBool True)"
    if "repository this = JNull \<or> repository this = JUndefined"
    using want that by (auto simp add: shouldArchive_arg)
  show "shouldUnarchive this JUndefined = Inr JUndefined"
    if "repository this = JNull \<or> repository this = JUndefined"
    using want that by (auto simp add: shouldUnarchive_arg)
  fix w1
  assume fetch: "getRepo this w = (Inr JNull, w1)"
  show "getState this w =
      (Inr (JObj [(''isArchived'', JUndefined), (''shouldArchive'', JBool True),
                  (''shouldUnarchive'', JUndefined)]),
       this\<lparr>repository := JNull\<rparr>, w1)"
    using want by (simp add: getState_found [OF fetch] shouldArchive_arg shouldUnarchive_arg tbind_def)
  show "sync this w =
      (Inr [], this\<lparr>repository := JNull\<rparr>,
       w1\<lparr>trace := trace w1 @ [LogWarn [JStr (not_found_message this)]]\<rparr>)"
    using sync_absent [OF fetch] by simp
qed

text \<open>Witness of C10: the theorem on the test doubles.\<close>

theorem absent_repository_unguarded_witness:
  "getDesiredArchiveState (plugin False (archived_obj (JBool True)) JUndefined) = Inr (JBool True) \<and>
   shouldArchive (plugin False (archived_obj (JBool True)) JUndefined) JNull = Inr (JBool True) \<and>
   shouldUnarchive (plugin False (archived_obj (JBool True)) JUndefined) JNull = Inr JUndefined \<and>
   shouldArchive (plugin False (archived_obj (JBool True)) JUndefined) JUndefined = Inr (JBool True) \<and>
   shouldUnarchive (plugin False (archived_obj (JBool True)) JUndefined) JUndefined = Inr JUndefined \<and>
   getState (plugin False (archived_obj (JBool True)) JUndefined) (world0 JNull) =
     (Inr (JObj [(''isArchived'', JUndefined), (''shouldArchive'', JBool True),
                 (''shouldUnarchive'', JUndefined)]),
      plugin False (archived_obj (JBool True)) JNull,
      \<lparr>remote = JNull,
       trace = [ReposGet (JObj [(''owner'', JStr ''test-owner''), (''repo'', JStr ''test-repo'')])]\<rparr>) \<and>
   sync (plugin False (archived_obj (JBool True)) JUndefined) (world0 JNull) =
     (Inr [], plugin False (archived_obj (JBool True)) JNull,
      \<lparr>remote = JNull,
       trace = [ReposGet (JObj [(''owner'', JStr ''test-owner''), (''repo'', JStr ''test-repo'')]),
                LogWarn [JStr ''Repo test-owner/test-repo not found, skipping archive sync'']]\<rparr>)"
proof -
  have want: "getDesiredArchiveState (plugin False (archived_obj (JBool True)) JUndefined) =
      Inr (JBool True)"
    by (simp add: getDesiredArchiveState_eq archived_obj_def)
  have fetch: "getRepo (plugin False (archived_obj (JBool True)) JUndefined) (world0 JNull) =
      (Inr JNull,
       \<lparr>remote = JNull,
        trace = [ReposGet (JObj [(''owner'', JStr ''test-owner''), (''repo'', JStr ''test-repo'')])]\<rparr>)"
    by (simp add: run_defs)
  show ?thesis
    using absent_repository_unguarded [OF want, of "world0 JNull"] want fetch
    by (simp add: not_found_message_def test_repo_def)
qed

text \<open>
  C3, as amended. In apply mode, when \<open>sync\<close> selects \<open>Archive\<close> or \<open>Unarchive\<close> and
  the remote update resolves with a response object, \<open>updateRepoArchiveStatus\<close> calls \<open>update\<close> with
  \<open>archived: true\<close> for \<open>Archive\<close> and \<open>archived: false\<close> for \<open>Unarchive\<close>, then logs
  at debug level the data of the response with the message
  \<open>Repo owner/repo archived\<close> or \<open>unarchived\<close>, and returns \<open>undefined\<close>; the one entry
  of the list \<open>sync\<close> returns is \<open>undefined\<close>.
\<close>

theorem apply_mode_result:
  assumes mode: "\<not> nop this"
    and fetch: "getRepo this w = (Inr d, w1)" and found: "truthy d"
    and act: "decide (this\<lparr>repository := d\<rparr>) = Inr act" "act \<noteq> NoAction"
    and resp: "repos_update (github this) (update_params this (JBool (act = Archive))) (remote w1) =
                 (Inr resp, r')"
    and data: "get_prop resp ''data'' = Inr data"
  shows "updateRepoArchiveStatus (this\<lparr>repository := d\<rparr>) (JBool (act = Archive)) w1 =
           (Inr (Val JUndefined),
            \<lparr>remote = r',
             trace = trace w1 @
               [ReposUpdate (update_params this (JBool (act = Archive))),
                LogDebug [JObj [(''result'', data)],
                          JStr (updated_message this
                                 (if act = Archive then ''archive'' else ''unarchive''))]]\<rparr>) \<and>
         sync this w =
           (Inr [Val JUndefined], this\<lparr>repository := d\<rparr>,
            \<lparr>remote = r',
             trace = trace w1 @
               [ReposUpdate (update_params this (JBool (act = Archive))),
                LogDebug [JObj [(''result'', data)],
                          JStr (updated_message this
                                 (if act = Archive then ''archive'' else ''unarchive''))]]\<rparr>)"
proof -
  have n: "\<not> nop (this\<lparr>repository := d\<rparr>)"
    using mode by simp
  have r: "repos_update (github (this\<lparr>repository := d\<rparr>))
             (update_params (this\<lparr>repository := d\<rparr>) (JBool (act = Archive))) (remote w1) =
           (Inr resp, r')"
    using resp by simp
  have u: "updateRepoArchiveStatus (this\<lparr>repository := d\<rparr>) (JBool (act = Archive)) w1 =
           (Inr (Val JUndefined),
            \<lparr>remote = r',
             trace = trace w1 @
               [ReposUpdate (update_params this (JBool (act = Archive))),
                LogDebug [JObj [(''result'', data)],
                          JStr (updated_message this
                                 (if act = Archive then ''archive'' else ''unarchive''))]]\<rparr>)"
    using update_apply [OF n r] data
    by (simp add: await_data_def action_name_bool)
  show ?thesis
    using sync_act [OF fetch found act] u by simp
qed

text \<open>Witness of C3: the theorem on the test doubles.\<close>

theorem apply_mode_result_witness:
  "sync (plugin False (archived_obj (JBool True)) JUndefined) (world0 (archived_obj (JBool False))) =
     (Inr [Val JUndefined], plugin False (archived_obj (JBool True)) (archived_obj (JBool False)),
      \<lparr>remote = archived_obj (JBool True),
       trace = [ReposGet (JObj [(''owner'', JStr ''test-owner''), (''repo'', JStr ''test-repo'')]),
                ReposUpdate (JObj [(''owner'', JStr ''test-owner''), (''repo'', JStr ''test-repo''),
                                   (''archived'', JBool True)]),
                LogDebug [JObj [(''result'', archived_obj (JBool True))],
                          JStr ''Repo test-owner/test-repo archived'']]\<rparr>) \<and>
   sync (plugin False (archived_obj (JBool False)) JUndefined) (world0 (archived_obj (JBool True))) =
     (Inr [Val JUndefined], plugin False (archived_obj (JBool False)) (archived_obj (JBool True)),
      \<lparr>remote = archived_obj (JBool False),
       trace = [ReposGet (JObj [(''owner'', JStr ''test-owner''), (''repo'', JStr ''test-repo'')]),
                ReposUpdate (JObj [(''owner'', JStr ''test-owner''), (''repo'', JStr ''test-repo''),
                                   (''archived'', JBool False)]),
                LogDebug [JObj [(''result'', archived_obj (JBool False))],
                          JStr ''Repo test-owner/test-repo unarchived'']]\<rparr>)"
proof -
  let ?get = "ReposGet (JObj [(''owner'', JStr ''test-owner''), (''repo'', JStr ''test-repo'')])"
  have n: "\<not> nop (plugin False s JUndefined)" for s
    by simp
  have f: "getRepo (plugin False s JUndefined) (world0 (archived_obj (JBool b))) =
      (Inr (archived_obj (JBool b)), \<lparr>remote = archived_obj (JBool b), trace = [?get]\<rparr>)" for s b
    by (simp add: run_defs)
  have t: "truthy (archived_obj (JBool b))" for b
    by (simp add: archived_obj_def)
  have a1: "decide ((plugin False (archived_obj (JBool True)) JUndefined)
              \<lparr>repository := archived_obj (JBool False)\<rparr>) = Inr Archive"
    by (simp add: decide_eq getDesiredArchiveState_eq archived_obj_def)
  have a2: "decide ((plugin False (archived_obj (JBool False)) JUndefined)
              \<lparr>repository := archived_obj (JBool True)\<rparr>) = Inr Unarchive"
    by (simp add: decide_eq getDesiredArchiveState_eq archived_obj_def)
  have r: "repos_update (github (plugin False s JUndefined))
             (update_params (plugin False s JUndefined) (JBool b))
             (remote \<lparr>remote = archived_obj (JBool c), trace = [?get]\<rparr>) =
           (Inr (JObj [(''data'', archived_obj (JBool b))]), archived_obj (JBool b))" for s b c
    by (simp add: run_defs)
  have d: "get_prop (JObj [(''data'', archived_obj (JBool b))]) ''data'' =
           Inr (archived_obj (JBool b))" for b
    by (simp add: get_prop_def)
  have r1: "repos_update (github (plugin False (archived_obj (JBool True)) JUndefined))
             (update_params (plugin False (archived_obj (JBool True)) JUndefined)
                (JBool (Archive = Archive)))
             (remote \<lparr>remote = archived_obj (JBool False), trace = [?get]\<rparr>) =
           (Inr (JObj [(''data'', archived_obj (JBool True))]), archived_obj (JBool True))"
    using r [of _ True False] by simp
  have r2: "repos_update (github (plugin False (archived_obj (JBool False)) JUndefined))
             (update_params (plugin False (archived_obj (JBool False)) JUndefined)
                (JBool (Unarchive = Archive)))
             (remote \<lparr>remote = archived_obj (JBool True), trace = [?get]\<rparr>) =
           (Inr (JObj [(''data'', archived_obj (JBool False))]), archived_obj (JBool False))"
    using r [of _ False True] by simp
  show ?thesis
    using apply_mode_result [OF n f t a1 _ r1 d] apply_mode_result [OF n f t a2 _ r2 d]
    by (simp add: update_params_def updated_message_def test_repo_def)
qed

text \<open>
  C3 as stated fails: on the in-memory remote, \<open>update\<close> resolves with a response
  holding the data of the repository, and both \<open>updateRepoArchiveStatus\<close> and the entry
  of \<open>sync\<close> are \<open>undefined\<close>, which is neither the response nor its data.
\<close>

theorem apply_returns_response_counterexample:
  "fst (repos_update memory_github
          (update_params (plugin False (archived_obj (JBool True)) (archived_obj (JBool False)))
             (JBool True))
          (archived_obj (JBool False))) =
     Inr (JObj [(''data'', archived_obj (JBool True))]) \<and>
   fst (updateRepoArchiveStatus
          (plugin False (archived_obj (JBool True)) (archived_obj (JBool False))) (JBool True)
          (world0 (archived_obj (JBool False)))) =
     Inr (Val JUndefined) \<and>
   Val JUndefined \<noteq> Val (JObj [(''data'', archived_obj (JBool True))]) \<and>
   Val JUndefined \<noteq> Val (archived_obj (JBool True)) \<and>
   fst (sync (plugin False (archived_obj (JBool True)) JUndefined)
          (world0 (archived_obj (JBool False)))) =
     Inr [Val JUndefined]"
  by (simp add: sync_def shouldArchive_arg shouldUnarchive_arg getDesiredArchiveState_eq
      updateRepoArchiveStatus_def run_defs)

text \<open>
  C2. The claim asks that the endpoint descriptor of the preview describe the call apply
  mode makes. The code at two inputs, in both modes. With the settings
  \<open>{ archived: true }\<close> on a repository that is not archived, the descriptor is built
  from \<open>{ archived: true }\<close>, without owner and repo, while apply mode calls \<open>update\<close>
  with \<open>{ owner, repo, archived: true }\<close>. With the settings \<open>{ archived: "TRUE" }\<close> on
  an archived repository, the descriptor carries \<open>archived: "TRUE"\<close>, while the change
  of the same artifact says \<open>unarchive\<close> and apply mode calls \<open>update\<close> with
  \<open>archived: false\<close>.
\<close>

theorem preview_descriptor_diverges:
  "sync (plugin True (archived_obj (JBool True)) JUndefined) (world0 (archived_obj (JBool False))) =
     (Inr [Cmd \<lparr>source = ''Archive'', resource = test_repo,
                endpoint = JObj [(''method'', JStr ''PATCH''),
                                 (''url'', JStr ''/repos/{owner}/{repo}''),
                                 (''params'', JObj [(''archived'', JBool True)])],
                change = change_record ''archive'', level = ''INFO''\<rparr>],
      plugin True (archived_obj (JBool True)) (archived_obj (JBool False)),
      \<lparr>remote = archived_obj (JBool False),
       trace = [ReposGet (JObj [(''owner'', JStr ''test-owner''), (''repo'', JStr ''test-repo'')])]\<rparr>) \<and>
   trace (snd (snd (sync (plugin False (archived_obj (JBool True)) JUndefined)
                      (world0 (archived_obj (JBool False)))))) =
     [ReposGet (JObj [(''owner'', JStr ''test-owner''), (''repo'', JStr ''test-repo'')]),
      ReposUpdate (JObj [(''owner'', JStr ''test-owner''), (''repo'', JStr ''test-repo''),
                         (''archived'', JBool True)]),
      LogDebug [JObj [(''result'', archived_obj (JBool True))],
                JStr ''Repo test-owner/test-repo archived'']] \<and>
   repos_update_endpoint memory_github
     (JObj [(''owner'', JStr ''test-owner''), (''repo'', JStr ''test-repo''),
            (''archived'', JBool True)]) =
     JObj [(''method'', JStr ''PATCH''), (''url'', JStr ''/repos/{owner}/{repo}''),
           (''params'', JObj [(''owner'', JStr ''test-owner''), (''repo'', JStr ''test-repo''),
                              (''archived'', JBool True)])] \<and>
   JObj [(''method'', JStr ''PATCH''), (''url'', JStr ''/repos/{owner}/{repo}''),
         (''params'', JObj [(''archived'', JBool True)])] \<noteq>
   JObj [(''method'', JStr ''PATCH''), (''url'', JStr ''/repos/{owner}/{repo}''),
         (''params'', JObj [(''owner'', JStr ''test-owner''), (''repo'', JStr ''test-repo''),
                            (''archived'', JBool True)])] \<and>
   sync (plugin True (archived_obj (JStr ''TRUE'')) JUndefined) (world0 (archived_obj (JBool True))) =
     (Inr [Cmd \<lparr>source = ''Archive'', resource = test_repo,
                endpoint = JObj [(''method'', JStr ''PATCH''),
                                 (''url'', JStr ''/repos/{owner}/{repo}''),
                                 (''params'', JObj [(''archived'', JStr ''TRUE'')])],
                change = change_record ''unarchive'', level = ''INFO''\<rparr>],
      plugin True (archived_obj (JStr ''TRUE'')) (archived_obj (JBool True)),
      \<lparr>remote = archived_obj (JBool True),
       trace = [ReposGet (JObj [(''owner'', JStr ''test-owner''), (''repo'', JStr ''test-repo'')])]\<rparr>) \<and>
   trace (snd (snd (sync (plugin False (archived_obj (JStr ''TRUE'')) JUndefined)
                      (world0 (archived_obj (JBool True)))))) =
     [ReposGet (JObj [(''owner'', JStr ''test-owner''), (''repo'', JStr ''test-repo'')]),
      ReposUpdate (JObj [(''owner'', JStr ''test-owner''), (''repo'', JStr ''test-repo''),
                         (''archived'', JBool False)]),
      LogDebug [JObj [(''result'', archived_obj (JBool False))],
                JStr ''Repo test-owner/test-repo unarchived'']]"
  by (simp add: sync_def shouldArchive_arg shouldUnarchive_arg getDesiredArchiveState_eq
      updateRepoArchiveStatus_def run_defs)

end
